theory Spec2Isabelle
  imports Main
begin

section \<open>The request handler of \<open>src/app.ts\<close>\<close>

text \<open>
  The repository is one asynchronous function, \<open>handler\<close>. It logs the event it is given
  and returns a fixed success response; whatever the body of its \<open>try\<close> throws is handled
  by the \<open>catch\<close> clause, which logs a message derived from the thrown value and returns a
  fixed failure response.

  The function is embedded with its effects made explicit:
  \<^item> a thrown value is the left summand of the result (\<open>Inl\<close>), a returned one the right.
    The function is \<open>async\<close>, so \<open>Inl x\<close> is the promise rejected with \<open>x\<close> and
    \<open>Inr r\<close> the promise fulfilled with \<open>r\<close>;
  \<^item> the diagnostic output is the list of logging calls issued so far, passed in and
    returned extended;
  \<^item> \<open>console\<close> belongs to the platform, not to the repository, so it is a parameter:
    for each of its two methods, the value the call throws, if it throws.
\<close>

subsection \<open>Values\<close>

text \<open>
  The event has type \<open>any\<close>, and so has the value bound by \<open>catch\<close>. Two kinds of value
  are instances of \<open>Error\<close>: \<open>JSError m\<close>, whose \<open>message\<close> is the string \<open>m\<close>, and
  \<open>JSErrorThrowing y\<close>, whose \<open>message\<close> is an accessor property the reading of which
  throws \<open>y\<close>. Numbers are the integral ones.
\<close>

datatype jsvalue =
    JSUndefined
  | JSNull
  | JSBoolean bool
  | JSNumber int
  | JSString string
  | JSArray "jsvalue list"
  | JSObject "(string \<times> jsvalue) list"
  | JSError string
  | JSErrorThrowing jsvalue

text \<open>\<^verbatim>\<open>error instanceof Error\<close>\<close>

fun instanceof_Error :: "jsvalue \<Rightarrow> bool" where
  "instanceof_Error (JSError message) = True"
| "instanceof_Error (JSErrorThrowing thrown) = True"
| "instanceof_Error error = False"

record response =
  statusCode :: int
  body :: string

subsection \<open>The console\<close>

text \<open>
  \<open>console_log con v = None\<close> says that \<open>console.log(v)\<close> returns, and
  \<open>console_log con v = Some x\<close> that it throws \<open>x\<close>; likewise for \<open>console.error\<close>,
  which the handler only ever calls on a string. The diagnostic output records the calls
  in the order in which they are issued, a call that throws included.
\<close>

record console =
  console_log :: "jsvalue \<Rightarrow> jsvalue option"
  console_error :: "string \<Rightarrow> jsvalue option"

datatype call = ConsoleLog jsvalue | ConsoleError string

text \<open>
  A call of a console method writes its argument to the diagnostic output when it returns;
  a call that throws has written nothing. \<open>writes con calls\<close> are the calls among \<open>calls\<close>
  that have written.
\<close>

definition returns :: "console \<Rightarrow> call \<Rightarrow> bool" where
  "returns con c =
     (case c of
        ConsoleLog v \<Rightarrow> console_log con v = None
      | ConsoleError m \<Rightarrow> console_error con m = None)"

definition writes :: "console \<Rightarrow> call list \<Rightarrow> call list" where
  "writes con calls = filter (returns con) calls"

subsection \<open>\<open>JSON.stringify\<close> on an object literal of strings\<close>

text \<open>
  The handler serialises two object literals, each with two string-valued properties.
  \<open>JSON_stringify\<close> is \<open>JSON.stringify\<close> on such objects, given as the list of their
  properties in creation order: no white space, the properties in that order, keys and
  values quoted, with the escapes of ECMAScript's \<open>QuoteJSONString\<close>.
\<close>

definition hex_digit :: "nat \<Rightarrow> char" where
  "hex_digit n = (if n < 10 then char_of (48 + n) else char_of (87 + n))"

definition quote_char :: "char \<Rightarrow> string" where
  "quote_char c =
     (if c = CHR 0x08 then [CHR 0x5C, CHR ''b'']
      else if c = CHR 0x09 then [CHR 0x5C, CHR ''t'']
      else if c = CHR 0x0A then [CHR 0x5C, CHR ''n'']
      else if c = CHR 0x0C then [CHR 0x5C, CHR ''f'']
      else if c = CHR 0x0D then [CHR 0x5C, CHR ''r'']
      else if c = CHR 0x22 then [CHR 0x5C, CHR 0x22]
      else if c = CHR 0x5C then [CHR 0x5C, CHR 0x5C]
      else if (of_char c :: nat) < 32 then
        [CHR 0x5C, CHR ''u'', CHR ''0'', CHR ''0'',
         hex_digit (of_char c div 16), hex_digit (of_char c mod 16)]
      else [c])"

definition QuoteJSONString :: "string \<Rightarrow> string" where
  "QuoteJSONString s = [CHR 0x22] @ concat (map quote_char s) @ [CHR 0x22]"

fun join :: "string \<Rightarrow> string list \<Rightarrow> string" where
  "join sep [] = []"
| "join sep [x] = x"
| "join sep (x # y # ys) = x @ sep @ join sep (y # ys)"

definition JSON_stringify :: "(string \<times> string) list \<Rightarrow> string" where
  "JSON_stringify props =
     ''{'' @ join '','' (map (\<lambda>(k, v). QuoteJSONString k @ '':'' @ QuoteJSONString v) props) @ ''}''"

subsection \<open>The handler\<close>

text \<open>
  \<^verbatim>\<open>const errorMessage = error instanceof Error ? error.message : "Something went wrong";\<close>

  On an instance of \<open>Error\<close> the property \<open>message\<close> is read, and the reading of an
  accessor can throw: the result is the string (\<open>Inr\<close>) or what the reading throws
  (\<open>Inl\<close>).
\<close>

definition errorMessage_of :: "jsvalue \<Rightarrow> jsvalue + string" where
  "errorMessage_of error =
     (case error of
        JSError message \<Rightarrow> Inr message
      | JSErrorThrowing thrown \<Rightarrow> Inl thrown
      | _ \<Rightarrow> Inr ''Something went wrong'')"

text \<open>
  The body of the \<open>try\<close>: \<open>console.log(event)\<close>, then the success response. The
  serialisation of the object literal cannot throw, so the call of \<open>console.log\<close> is the
  only statement of the block that can.
\<close>

definition try_block :: "console \<Rightarrow> jsvalue \<Rightarrow> call list \<Rightarrow> (jsvalue + response) \<times> call list" where
  "try_block con event out =
     (case console_log con event of
        Some thrown \<Rightarrow> (Inl thrown, out @ [ConsoleLog event])
      | None \<Rightarrow>
          (Inr \<lparr>statusCode = 200,
                body = JSON_stringify [(''status'', ''success''), (''message'', ''handler triggered'')]\<rparr>,
           out @ [ConsoleLog event]))"

text \<open>
  The \<open>catch\<close> clause, entered with the thrown value: the message is derived and passed to
  \<open>console.error\<close>, then the failure response is returned. The clause is not itself inside
  a \<open>try\<close>: what the reading of the message throws, and what \<open>console.error\<close> throws,
  leaves the handler.
\<close>

definition catch_block :: "console \<Rightarrow> jsvalue \<Rightarrow> call list \<Rightarrow> (jsvalue + response) \<times> call list" where
  "catch_block con error out =
     (case errorMessage_of error of
        Inl thrown \<Rightarrow> (Inl thrown, out)
      | Inr errorMessage \<Rightarrow>
          (case console_error con errorMessage of
             Some thrown \<Rightarrow> (Inl thrown, out @ [ConsoleError errorMessage])
           | None \<Rightarrow>
               (Inr \<lparr>statusCode = 500,
                     body = JSON_stringify [(''status'', ''failed''), (''message'', ''Something went wrong'')]\<rparr>,
                out @ [ConsoleError errorMessage])))"

definition handler :: "console \<Rightarrow> jsvalue \<Rightarrow> call list \<Rightarrow> (jsvalue + response) \<times> call list" where
  "handler con event out =
     (case try_block con event out of
        (Inr result, out') \<Rightarrow> (Inr result, out')
      | (Inl error, out') \<Rightarrow> catch_block con error out')"

subsection \<open>The two responses of the specification\<close>

text \<open>
  The responses as the specification writes them out (section 8), character by character.
\<close>

definition success_response :: response where
  \<open>success_response =
     \<lparr>statusCode = 200, body = ''{"status":"success","message":"handler triggered"}''\<rparr>\<close>

definition failure_response :: response where
  \<open>failure_response =
     \<lparr>statusCode = 500, body = ''{"status":"failed","message":"Something went wrong"}''\<rparr>\<close>

subsection \<open>Consoles used as examples\<close>

text \<open>A console both of whose methods always return.\<close>

definition quiet_console :: console where
  "quiet_console = \<lparr>console_log = (\<lambda>v. None), console_error = (\<lambda>m. None)\<rparr>"

text \<open>
  A console whose \<open>log\<close> throws the given value on every argument but \<open>null\<close>, and whose
  \<open>error\<close> returns: a failure forced inside the \<open>try\<close>.
\<close>

definition throwing_log :: "jsvalue \<Rightarrow> console" where
  "throwing_log x =
     \<lparr>console_log = (\<lambda>v. if v = JSNull then None else Some x), console_error = (\<lambda>m. None)\<rparr>"

text \<open>
  A console neither of whose methods can write: \<open>log\<close> throws the first value and
  \<open>error\<close> the second, on every argument.
\<close>

definition broken_console :: "jsvalue \<Rightarrow> jsvalue \<Rightarrow> console" where
  "broken_console x y = \<lparr>console_log = (\<lambda>v. Some x), console_error = (\<lambda>m. Some y)\<rparr>"

text \<open>
  A console whose \<open>log\<close> throws an \<open>Error\<close> with message \<open>boom\<close> on every argument but
  \<open>null\<close>, and whose \<open>error\<close> returns on that message and throws on every other one.
\<close>

definition picky_console :: console where
  "picky_console =
     \<lparr>console_log = (\<lambda>v. if v = JSNull then None else Some (JSError ''boom'')),
      console_error = (\<lambda>m. if m = ''boom'' then None else Some (JSString ''EPIPE''))\<rparr>"

section \<open>Properties\<close>

subsection \<open>The serialised bodies\<close>

lemma success_body:
  \<open>JSON_stringify [(''status'', ''success''), (''message'', ''handler triggered'')] =
     ''{"status":"success","message":"handler triggered"}''\<close>
  by (simp add: JSON_stringify_def QuoteJSONString_def quote_char_def)

lemma failure_body:
  \<open>JSON_stringify [(''status'', ''failed''), (''message'', ''Something went wrong'')] =
     ''{"status":"failed","message":"Something went wrong"}''\<close>
  by (simp add: JSON_stringify_def QuoteJSONString_def quote_char_def)

subsection \<open>The three ways through the handler\<close>

lemma handler_try_returns:
  assumes "console_log con event = None"
  shows "handler con event out = (Inr success_response, out @ [ConsoleLog event])"
  using assms by (simp add: handler_def try_block_def success_response_def success_body)

lemma handler_catch_returns:
  assumes "console_log con event = Some x"
    and "errorMessage_of x = Inr m"
    and "console_error con m = None"
  shows "handler con event out =
    (Inr failure_response, out @ [ConsoleLog event, ConsoleError m])"
  using assms
  by (simp add: handler_def try_block_def catch_block_def failure_response_def failure_body)

lemma handler_catch_throws:
  assumes "console_log con event = Some x"
    and "errorMessage_of x = Inr m"
    and "console_error con m = Some y"
  shows "handler con event out = (Inl y, out @ [ConsoleLog event, ConsoleError m])"
  using assms by (simp add: handler_def try_block_def catch_block_def)

lemma handler_message_throws:
  assumes "console_log con event = Some x"
    and "errorMessage_of x = Inl y"
  shows "handler con event out = (Inl y, out @ [ConsoleLog event])"
  using assms by (simp add: handler_def try_block_def catch_block_def)

lemma handler_cases:
  "handler con event out =
     (case console_log con event of
        None \<Rightarrow> (Inr success_response, out @ [ConsoleLog event])
      | Some x \<Rightarrow>
          (case errorMessage_of x of
             Inl y \<Rightarrow> (Inl y, out @ [ConsoleLog event])
           | Inr m \<Rightarrow>
               (case console_error con m of
                  None \<Rightarrow> Inr failure_response
                | Some y \<Rightarrow> Inl y,
                out @ [ConsoleLog event, ConsoleError m])))"
  by (simp add: handler_try_returns handler_catch_returns handler_catch_throws
      handler_message_throws split: option.split sum.split)

lemma errorMessage_of_Error [simp]: "errorMessage_of (JSError m) = Inr m"
  by (simp add: errorMessage_of_def)

lemma errorMessage_of_throwing [simp]: "errorMessage_of (JSErrorThrowing y) = Inl y"
  by (simp add: errorMessage_of_def)

lemma errorMessage_of_other:
  "\<not> instanceof_Error x \<Longrightarrow> errorMessage_of x = Inr ''Something went wrong''"
  by (cases x) (simp_all add: errorMessage_of_def)

subsection \<open>The success path\<close>

text \<open>
  C2. In every invocation in which no failure occurs, that is, in which the call of
  \<open>console.log\<close> returns, the handler returns exactly the response with status code 200
  and body \<^verbatim>\<open>{"status":"success","message":"handler triggered"}\<close>.
\<close>

theorem handler_success_response:
  assumes \<open>console_log con event = None\<close>
  shows \<open>fst (handler con event out) =
    Inr \<lparr>statusCode = 200, body = ''{"status":"success","message":"handler triggered"}''\<rparr>\<close>
  using assms by (simp add: handler_def try_block_def success_body)

theorem handler_success_response_witness:
  \<open>console_log quiet_console (JSObject [(''foo'', JSString ''bar'')]) = None \<and>
   fst (handler quiet_console (JSObject [(''foo'', JSString ''bar'')]) []) =
     Inr \<lparr>statusCode = 200, body = ''{"status":"success","message":"handler triggered"}''\<rparr>\<close>
proof -
  have quiet: "console_log quiet_console (JSObject [(''foo'', JSString ''bar'')]) = None"
    by (simp add: quiet_console_def)
  from quiet handler_success_response [OF quiet, of "[]"] show ?thesis
    by (rule conjI)
qed

text \<open>
  C9. With a \<open>console.log\<close> that returns on every argument, the body of the \<open>try\<close> never
  throws: every invocation returns the 200 response after the one call of \<open>console.log\<close>,
  and the \<open>catch\<close> clause, with its call of \<open>console.error\<close> and its 500 response, is never
  entered.
\<close>

theorem catch_unreachable_when_log_total:
  assumes "\<forall>v. console_log con v = None"
  shows "handler con event out = try_block con event out
    \<and> handler con event out = (Inr success_response, out @ [ConsoleLog event])
    \<and> statusCode success_response = 200"
proof -
  from assms have ret: "console_log con event = None" by simp
  then have "try_block con event out = (Inr success_response, out @ [ConsoleLog event])"
    by (simp add: try_block_def success_response_def success_body)
  with ret show ?thesis
    by (simp add: handler_try_returns success_response_def)
qed

theorem catch_unreachable_when_log_total_witness:
  "(\<forall>v. console_log quiet_console v = None)
    \<and> handler quiet_console JSNull [] = try_block quiet_console JSNull []
    \<and> handler quiet_console JSNull [] = (Inr success_response, [ConsoleLog JSNull])
    \<and> statusCode success_response = 200"
proof -
  have total: "\<forall>v. console_log quiet_console v = None"
    by (simp add: quiet_console_def)
  from total catch_unreachable_when_log_total [OF total, of JSNull "[]", unfolded append_Nil]
  show ?thesis
    by (rule conjI)
qed

subsection \<open>The failure path\<close>

text \<open>
  C3, as stated, fails: a failure raised while the event is processed yields the 500
  response only if the \<open>catch\<close> clause gets as far as its \<open>return\<close>. Below, \<open>console.log\<close>
  throws the string \<open>boom\<close>, the clause is entered, \<open>console.error\<close> throws in its turn, and
  the handler has no response at all.
\<close>

theorem failure_without_response_counterexample:
  \<open>console_log (broken_console (JSString ''boom'') (JSError ''stderr closed''))
       (JSObject [(''foo'', JSString ''bar'')]) = Some (JSString ''boom'')
   \<and> fst (handler (broken_console (JSString ''boom'') (JSError ''stderr closed''))
       (JSObject [(''foo'', JSString ''bar'')]) []) \<noteq>
     Inr \<lparr>statusCode = 500, body = ''{"status":"failed","message":"Something went wrong"}''\<rparr>\<close>
  by (simp add: handler_def try_block_def catch_block_def broken_console_def
      errorMessage_of_def)

text \<open>
  C3, amended. For every failure raised inside the \<open>try\<close>, whatever its message or type,
  if the call of \<open>console.error\<close> in the \<open>catch\<close> clause, on the message derived from the
  thrown value, returns, the handler returns exactly the response with status code 500
  and body \<^verbatim>\<open>{"status":"failed","message":"Something went wrong"}\<close>.
\<close>

theorem handler_failure_response:
  assumes \<open>console_log con event = Some x\<close>
    and \<open>errorMessage_of x = Inr m\<close>
    and \<open>console_error con m = None\<close>
  shows \<open>fst (handler con event out) =
    Inr \<lparr>statusCode = 500, body = ''{"status":"failed","message":"Something went wrong"}''\<rparr>\<close>
  using assms by (simp add: handler_def try_block_def catch_block_def failure_body)

theorem handler_failure_response_witness:
  \<open>console_log (throwing_log (JSError ''boom'')) (JSString ''ping'') = Some (JSError ''boom'')
   \<and> errorMessage_of (JSError ''boom'') = Inr ''boom''
   \<and> console_error (throwing_log (JSError ''boom'')) ''boom'' = None
   \<and> fst (handler (throwing_log (JSError ''boom'')) (JSString ''ping'') []) =
     Inr \<lparr>statusCode = 500, body = ''{"status":"failed","message":"Something went wrong"}''\<rparr>\<close>
proof -
  have thrown: "console_log (throwing_log (JSError ''boom'')) (JSString ''ping'') =
      Some (JSError ''boom'')"
    by (simp add: throwing_log_def)
  have derived: "errorMessage_of (JSError ''boom'') = Inr ''boom''"
    by (simp add: errorMessage_of_def)
  have logged: "console_error (throwing_log (JSError ''boom'')) ''boom'' = None"
    by (simp add: throwing_log_def)
  from thrown derived logged handler_failure_response [OF thrown derived logged, of "[]"]
  show ?thesis
    by (intro conjI)
qed

text \<open>
  C4, in its two-run form. Take any two invocations in each of which a failure is raised
  inside the \<open>try\<close> and a response is returned: the two responses are the same, whatever
  the two failures, the two events and the two consoles. No detail of the failure reaches
  the response.
\<close>

theorem failure_response_independent_of_error:
  assumes "console_log con1 event1 = Some x1"
    and "console_log con2 event2 = Some x2"
    and "fst (handler con1 event1 out1) = Inr r1"
    and "fst (handler con2 event2 out2) = Inr r2"
  shows "r1 = r2"
proof -
  from assms(1,3) have "r1 = failure_response"
    by (simp add: handler_cases split: option.splits sum.splits)
  moreover from assms(2,4) have "r2 = failure_response"
    by (simp add: handler_cases split: option.splits sum.splits)
  ultimately show ?thesis by simp
qed

theorem failure_response_independent_of_error_witness:
  \<open>console_log (throwing_log (JSError ''boom'')) (JSBoolean True) = Some (JSError ''boom'')
   \<and> console_log (throwing_log (JSNumber 42)) (JSArray []) = Some (JSNumber 42)
   \<and> fst (handler (throwing_log (JSError ''boom'')) (JSBoolean True) []) = Inr failure_response
   \<and> fst (handler (throwing_log (JSNumber 42)) (JSArray [])
        [ConsoleLog JSNull]) =
      Inr \<lparr>statusCode = 500, body = ''{"status":"failed","message":"Something went wrong"}''\<rparr>
   \<and> failure_response =
      \<lparr>statusCode = 500, body = ''{"status":"failed","message":"Something went wrong"}''\<rparr>\<close>
proof -
  have first: "console_log (throwing_log (JSError ''boom'')) (JSBoolean True) =
      Some (JSError ''boom'')"
    by (simp add: throwing_log_def)
  have second: "console_log (throwing_log (JSNumber 42)) (JSArray []) = Some (JSNumber 42)"
    by (simp add: throwing_log_def)
  have first_returns:
    "fst (handler (throwing_log (JSError ''boom'')) (JSBoolean True) []) = Inr failure_response"
    by (simp add: handler_cases throwing_log_def)
  have second_returns:
    \<open>fst (handler (throwing_log (JSNumber 42)) (JSArray []) [ConsoleLog JSNull]) =
      Inr \<lparr>statusCode = 500, body = ''{"status":"failed","message":"Something went wrong"}''\<rparr>\<close>
    by (simp add: handler_cases throwing_log_def failure_response_def errorMessage_of_def)
  from first second first_returns second_returns
    failure_response_independent_of_error [OF first second first_returns second_returns]
  show ?thesis
    by (intro conjI)
qed

text \<open>
  C7. When the failure raised inside the \<open>try\<close> is an \<open>Error\<close> with message \<open>m\<close>, the
  handler's second logging call is \<open>console.error\<close> on exactly \<open>m\<close>. The text goes nowhere
  else: the handler's result is the fixed failure response, the same for every \<open>m\<close>, or,
  should \<open>console.error\<close> throw, what that call throws.
\<close>

theorem error_message_logged_not_returned:
  assumes "console_log con event = Some (JSError m)"
  shows "snd (handler con event out) = out @ [ConsoleLog event, ConsoleError m]
    \<and> fst (handler con event out) =
        (case console_error con m of None \<Rightarrow> Inr failure_response | Some y \<Rightarrow> Inl y)"
  using assms by (simp add: handler_cases)

theorem error_message_logged_not_returned_witness:
  "console_log (throwing_log (JSError ''boom'')) (JSNumber 1) = Some (JSError ''boom'')
    \<and> snd (handler (throwing_log (JSError ''boom'')) (JSNumber 1) []) =
        [ConsoleLog (JSNumber 1), ConsoleError ''boom'']
    \<and> fst (handler (throwing_log (JSError ''boom'')) (JSNumber 1) []) = Inr failure_response"
proof -
  have thrown: "console_log (throwing_log (JSError ''boom'')) (JSNumber 1) =
      Some (JSError ''boom'')"
    by (simp add: throwing_log_def)
  have logged: "console_error (throwing_log (JSError ''boom'')) ''boom'' = None"
    by (simp add: throwing_log_def)
  from thrown error_message_logged_not_returned [OF thrown, of "[]"] logged show ?thesis
    by simp
qed

text \<open>
  C10. When the value thrown inside the \<open>try\<close> is not an instance of \<open>Error\<close>, the string
  passed to \<open>console.error\<close> is the fixed \<open>Something went wrong\<close>, and a failure response
  that is returned carries in its body the serialisation of that same string as its
  \<open>message\<close>.
\<close>

theorem non_error_logs_fixed_message:
  assumes "console_log con event = Some x"
    and "\<not> instanceof_Error x"
  shows "\<exists>msg. errorMessage_of x = Inr msg
    \<and> msg = ''Something went wrong''
    \<and> snd (handler con event out) = out @ [ConsoleLog event, ConsoleError msg]
    \<and> (fst (handler con event out) = Inr r \<longrightarrow>
        body r = JSON_stringify [(''status'', ''failed''), (''message'', msg)])"
proof -
  from assms(2) have fixed: "errorMessage_of x = Inr ''Something went wrong''"
    by (rule errorMessage_of_other)
  from assms(1) have "snd (handler con event out) =
      out @ [ConsoleLog event, ConsoleError ''Something went wrong'']"
    by (simp add: handler_cases fixed)
  moreover from assms(1) have "fst (handler con event out) = Inr r \<longrightarrow>
      body r = JSON_stringify [(''status'', ''failed''), (''message'', ''Something went wrong'')]"
    by (auto simp add: handler_cases fixed failure_body failure_response_def
        split: option.splits)
  ultimately show ?thesis using fixed by simp
qed

theorem non_error_logs_fixed_message_witness:
  "console_log (throwing_log (JSString ''boom'')) JSUndefined = Some (JSString ''boom'')
    \<and> \<not> instanceof_Error (JSString ''boom'')
    \<and> errorMessage_of (JSString ''boom'') = Inr ''Something went wrong''
    \<and> snd (handler (throwing_log (JSString ''boom'')) JSUndefined []) =
        [ConsoleLog JSUndefined, ConsoleError ''Something went wrong'']
    \<and> fst (handler (throwing_log (JSString ''boom'')) JSUndefined []) = Inr failure_response
    \<and> body failure_response =
        JSON_stringify [(''status'', ''failed''), (''message'', ''Something went wrong'')]"
proof -
  have thrown: "console_log (throwing_log (JSString ''boom'')) JSUndefined =
      Some (JSString ''boom'')"
    by (simp add: throwing_log_def)
  have plain: "\<not> instanceof_Error (JSString ''boom'')"
    by simp
  have returned: "fst (handler (throwing_log (JSString ''boom'')) JSUndefined []) =
      Inr failure_response"
    by (simp add: handler_cases throwing_log_def errorMessage_of_def)
  from thrown plain returned
    non_error_logs_fixed_message [OF thrown plain, of "[]" failure_response]
  show ?thesis
    by auto
qed

subsection \<open>The logging calls\<close>

text \<open>
  C6, as stated, fails on the failure path. Below, \<open>console.log\<close> throws an \<open>Error\<close> the
  reading of whose \<open>message\<close> throws: the \<open>catch\<close> clause is entered and left before
  \<open>console.error\<close> is called. The invocation has made one logging call, not two, and that
  call, having thrown, has written nothing.
\<close>

theorem one_call_on_failure_path_counterexample:
  "console_log (throwing_log (JSErrorThrowing (JSString ''denied''))) (JSString ''ping'') =
      Some (JSErrorThrowing (JSString ''denied''))
    \<and> handler (throwing_log (JSErrorThrowing (JSString ''denied''))) (JSString ''ping'') [] =
        (Inl (JSString ''denied''), [ConsoleLog (JSString ''ping'')])
    \<and> writes (throwing_log (JSErrorThrowing (JSString ''denied'')))
        (snd (handler (throwing_log (JSErrorThrowing (JSString ''denied'')))
          (JSString ''ping'') [])) = []"
  by (simp add: handler_def try_block_def catch_block_def throwing_log_def writes_def
      returns_def)

text \<open>
  C6, amended. When the body of the \<open>try\<close> completes, the invocation makes exactly one
  logging call, \<open>console.log\<close> on the event, and that call is its one write. When the body
  fails, the call of \<open>console.log\<close> on the event is the call that threw, and it wrote
  nothing; the invocation then makes one more call, \<open>console.error\<close> on the message derived
  from the thrown value, unless the reading of the message throws, in which case it makes
  none; that second call is a write exactly when it returns. So there are at most two
  calls and at most one write on the failure path. No other call is made, and what was in
  the output before stays as it was.
\<close>

theorem handler_logging_calls:
  "(console_log con event = None \<longrightarrow>
      snd (handler con event out) = out @ [ConsoleLog event]
      \<and> writes con (snd (handler con event [])) = [ConsoleLog event])
    \<and> (\<forall>x. console_log con event = Some x \<longrightarrow>
      snd (handler con event out) =
        out @ ConsoleLog event #
          (case errorMessage_of x of Inl y \<Rightarrow> [] | Inr m \<Rightarrow> [ConsoleError m])
      \<and> writes con (snd (handler con event [])) =
        (case errorMessage_of x of
           Inl y \<Rightarrow> []
         | Inr m \<Rightarrow> if console_error con m = None then [ConsoleError m] else []))"
  by (simp add: handler_cases writes_def returns_def split: sum.split)

theorem handler_logging_calls_witness:
  "console_log quiet_console JSNull = None
    \<and> snd (handler quiet_console JSNull [ConsoleLog (JSNumber 0)]) =
        [ConsoleLog (JSNumber 0), ConsoleLog JSNull]
    \<and> writes quiet_console (snd (handler quiet_console JSNull [])) = [ConsoleLog JSNull]
    \<and> console_log (throwing_log (JSError ''boom'')) (JSString ''ping'') = Some (JSError ''boom'')
    \<and> snd (handler (throwing_log (JSError ''boom'')) (JSString ''ping'') []) =
        [ConsoleLog (JSString ''ping''), ConsoleError ''boom'']
    \<and> writes (throwing_log (JSError ''boom''))
        (snd (handler (throwing_log (JSError ''boom'')) (JSString ''ping'') [])) =
        [ConsoleError ''boom'']"
proof -
  have returns: "console_log quiet_console JSNull = None"
    by (simp add: quiet_console_def)
  have thrown: "console_log (throwing_log (JSError ''boom'')) (JSString ''ping'') =
      Some (JSError ''boom'')"
    by (simp add: throwing_log_def)
  have logged: "console_error (throwing_log (JSError ''boom'')) ''boom'' = None"
    by (simp add: throwing_log_def)
  from returns thrown logged
    handler_logging_calls [of quiet_console JSNull "[ConsoleLog (JSNumber 0)]"]
    handler_logging_calls [of "throwing_log (JSError ''boom'')" "JSString ''ping''" "[]"]
  show ?thesis
    by auto
qed

subsection \<open>What leaves the handler\<close>

text \<open>
  C1, as stated, fails: there are invocations in which the handler returns no response
  and throws. With a console both of whose methods throw, the failure of \<open>console.log\<close>
  is caught, and the failure of \<open>console.error\<close>, raised inside the \<open>catch\<close> clause,
  reaches the caller.
\<close>

theorem handler_throws_counterexample:
  "fst (handler (broken_console (JSError ''boom'') (JSString ''EPIPE'')) JSNull []) =
     Inl (JSString ''EPIPE'')"
  by (simp add: handler_def try_block_def catch_block_def broken_console_def)

text \<open>
  C1, amended. The handler returns a response for an event, and throws nothing, provided
  that the \<open>catch\<close> clause, if it is entered, runs to its end: if \<open>console.log\<close> throws on
  the event, then the message can be read from the thrown value and the one call of
  \<open>console.error\<close> that is made, on that message, returns. The response is the success
  response or the failure response.
\<close>

theorem handler_returns_when_catch_completes:
  assumes "\<forall>x. console_log con event = Some x \<longrightarrow>
    (\<exists>m. errorMessage_of x = Inr m \<and> console_error con m = None)"
  shows "fst (handler con event out) = Inr success_response
    \<or> fst (handler con event out) = Inr failure_response"
proof (cases "console_log con event")
  case None
  then show ?thesis by (simp add: handler_try_returns)
next
  case (Some x)
  with assms obtain m where "errorMessage_of x = Inr m" and "console_error con m = None"
    by blast
  with Some show ?thesis by (simp add: handler_catch_returns)
qed

theorem handler_returns_when_catch_completes_witness:
  "console_log picky_console (JSArray [JSNull]) = Some (JSError ''boom'')
    \<and> errorMessage_of (JSError ''boom'') = Inr ''boom''
    \<and> console_error picky_console ''boom'' = None
    \<and> console_error picky_console ''Something went wrong'' = Some (JSString ''EPIPE'')
    \<and> (fst (handler picky_console (JSArray [JSNull]) []) = Inr success_response
       \<or> fst (handler picky_console (JSArray [JSNull]) []) = Inr failure_response)"
proof -
  have thrown: "console_log picky_console (JSArray [JSNull]) = Some (JSError ''boom'')"
    by (simp add: picky_console_def)
  have derived: "errorMessage_of (JSError ''boom'') = Inr ''boom''"
    by simp
  have logged: "console_error picky_console ''boom'' = None"
    by (simp add: picky_console_def)
  have other: "console_error picky_console ''Something went wrong'' = Some (JSString ''EPIPE'')"
    by (simp add: picky_console_def)
  have completes: "\<forall>x. console_log picky_console (JSArray [JSNull]) = Some x \<longrightarrow>
      (\<exists>m. errorMessage_of x = Inr m \<and> console_error picky_console m = None)"
    using thrown derived logged by simp
  from thrown derived logged other
    handler_returns_when_catch_completes [OF completes, of "[]"]
  show ?thesis
    by (intro conjI)
qed

text \<open>
  C5, as stated, fails: a failure raised by the logging call of the \<open>catch\<close> clause is not
  caught. Here \<open>console.log\<close> throws \<open>null\<close>, which is caught, and \<open>console.error\<close> then
  throws \<open>undefined\<close>, which is the outcome of the handler.
\<close>

theorem catch_clause_failure_escapes_counterexample:
  "handler (broken_console JSNull JSUndefined) (JSNumber 7) [] =
     (Inl JSUndefined, [ConsoleLog (JSNumber 7), ConsoleError ''Something went wrong''])"
  by (simp add: handler_def try_block_def catch_block_def broken_console_def
      errorMessage_of_def)

text \<open>
  C5, amended. Every failure raised inside the \<open>try\<close> is caught: the handler continues as
  its \<open>catch\<close> clause, entered with the thrown value. A failure raised inside the
  \<open>catch\<close> clause is not caught: what the reading of the message throws, or what
  \<open>console.error\<close> throws there, is what the handler throws, and the handler returns the
  failure response exactly when the call of \<open>console.error\<close> is made and returns.
\<close>

theorem try_failures_caught_catch_failures_escape:
  assumes "console_log con event = Some x"
  shows "handler con event out = catch_block con x (out @ [ConsoleLog event])
    \<and> fst (handler con event out) =
        (case errorMessage_of x of
           Inl y \<Rightarrow> Inl y
         | Inr m \<Rightarrow>
             (case console_error con m of
                None \<Rightarrow> Inr failure_response
              | Some y \<Rightarrow> Inl y))"
proof -
  from assms have "handler con event out = catch_block con x (out @ [ConsoleLog event])"
    by (simp add: handler_def try_block_def)
  moreover from assms have "fst (handler con event out) =
      (case errorMessage_of x of
         Inl y \<Rightarrow> Inl y
       | Inr m \<Rightarrow>
           (case console_error con m of
              None \<Rightarrow> Inr failure_response
            | Some y \<Rightarrow> Inl y))"
    by (simp add: handler_cases split: sum.split)
  ultimately show ?thesis by (rule conjI)
qed

theorem try_failures_caught_catch_failures_escape_witness:
  "console_log (broken_console (JSError ''first'') (JSError ''second'')) JSNull =
      Some (JSError ''first'')
    \<and> handler (broken_console (JSError ''first'') (JSError ''second'')) JSNull [] =
        catch_block (broken_console (JSError ''first'') (JSError ''second''))
          (JSError ''first'') [ConsoleLog JSNull]
    \<and> fst (handler (broken_console (JSError ''first'') (JSError ''second'')) JSNull []) =
        Inl (JSError ''second'')"
proof -
  have thrown: "console_log (broken_console (JSError ''first'') (JSError ''second'')) JSNull =
      Some (JSError ''first'')"
    by (simp add: broken_console_def)
  have again: "console_error (broken_console (JSError ''first'') (JSError ''second''))
      ''first'' = Some (JSError ''second'')"
    by (simp add: broken_console_def)
  from thrown
    try_failures_caught_catch_failures_escape
      [OF thrown, of "[]",
       unfolded errorMessage_of_Error sum.case again append_Nil option.case]
  show ?thesis
    by (rule conjI)
qed

subsection \<open>The event and the response\<close>

text \<open>
  C8, as stated, fails: the result depends on the event through the call of
  \<open>console.log\<close>. With a console whose \<open>log\<close> returns on \<open>null\<close> and throws on the object
  \<^verbatim>\<open>{"foo": "bar"}\<close>, the first event gets the success response and the second the
  failure response.
\<close>

theorem response_depends_on_event_counterexample:
  "fst (handler (throwing_log (JSError ''boom'')) JSNull []) \<noteq>
   fst (handler (throwing_log (JSError ''boom'')) (JSObject [(''foo'', JSString ''bar'')]) [])"
  by (simp add: handler_def try_block_def catch_block_def throwing_log_def)

text \<open>
  C8, amended. The event reaches nothing but the call of \<open>console.log\<close>: for any two
  events on which that call has the same outcome (it returns on both, or throws the same
  value on both), the handler's results are identical. In particular any two events on
  which the call returns get the same response.
\<close>

theorem response_depends_on_event_only_through_log:
  assumes "console_log con event1 = console_log con event2"
  shows "fst (handler con event1 out) = fst (handler con event2 out)"
  using assms by (simp add: handler_cases split: option.split sum.split)

theorem response_depends_on_event_only_through_log_witness:
  "console_log quiet_console JSNull = console_log quiet_console (JSObject [(''foo'', JSString ''bar'')])
    \<and> fst (handler quiet_console JSNull []) =
        fst (handler quiet_console (JSObject [(''foo'', JSString ''bar'')]) [])"
proof -
  have alike: "console_log quiet_console JSNull =
      console_log quiet_console (JSObject [(''foo'', JSString ''bar'')])"
    by (simp add: quiet_console_def)
  from alike response_depends_on_event_only_through_log [OF alike, of "[]"] show ?thesis
    by (rule conjI)
qed

end
